theory Spec2Isabelle
  imports Main "HOL-Library.Sublist"
begin

section \<open>Common Go data\<close>

text \<open>
  A Go \<open>string\<close> and a Go \<open>[]byte\<close> are both sequences of bytes; a HOL \<open>char\<close> is one
  byte, so both are \<open>char list\<close>. The conversion \<open>string(body)\<close> copies the bytes
  unchanged. A nil slice and an empty slice both have length 0 and are both \<open>[]\<close>.
\<close>

type_synonym bytes = string

text \<open>
  A Go map is either nil (\<open>None\<close>) or a table of entries (\<open>Some kvs\<close>). The order of
  \<open>kvs\<close> is the order in which a \<open>range\<close> loop visits the entries; a Go map holds each key
  once, which \<open>wf_map\<close> states.
\<close>

type_synonym ('k, 'v) gomap = "('k \<times> 'v) list option"

definition len_map :: "('k, 'v) gomap \<Rightarrow> nat" where
  "len_map m = (case m of None \<Rightarrow> 0 | Some kvs \<Rightarrow> length kvs)"

definition entries :: "('k, 'v) gomap \<Rightarrow> ('k \<times> 'v) list" where
  "entries m = (case m of None \<Rightarrow> [] | Some kvs \<Rightarrow> kvs)"

definition lookup :: "('k, 'v) gomap \<Rightarrow> 'k \<Rightarrow> 'v option" where
  "lookup m k = map_of (entries m) k"

definition wf_map :: "('k, 'v) gomap \<Rightarrow> bool" where
  "wf_map m = distinct (map fst (entries m))"

text \<open>\<open>m[k] = v\<close> on a non-nil map: replace the entry of \<open>k\<close> or add one.\<close>

fun assign :: "'k \<Rightarrow> 'v \<Rightarrow> ('k \<times> 'v) list \<Rightarrow> ('k \<times> 'v) list" where
  "assign k v [] = [(k, v)]"
| "assign k v ((k', v') # kvs) =
     (if k' = k then (k, v) # kvs else (k', v') # assign k v kvs)"

text \<open>\<open>http.Header\<close> and \<open>url.Values\<close> are both \<open>map[string][]string\<close>.\<close>

type_synonym Header = "(string, string list) gomap"
type_synonym Values = "(string, string list) gomap"

subsection \<open>Formatting verbs\<close>

text \<open>The verb \<open>%d\<close> of \<open>fmt.Sprintf\<close>: a decimal numeral, with a minus sign when negative.\<close>

definition digit :: "nat \<Rightarrow> char" where
  "digit d = char_of (48 + d)"

function dec :: "nat \<Rightarrow> string" where
  "dec n = (if n < 10 then [digit n] else dec (n div 10) @ [digit (n mod 10)])"
  by pat_completeness auto
termination
  by (relation "measure (\<lambda>n. n)") auto

declare dec.simps [simp del]

definition fmt_d :: "int \<Rightarrow> string" where
  "fmt_d i = (if i < 0 then CHR ''-'' # dec (nat (- i)) else dec (nat i))"

text \<open>\<open>strings.Join(elems, sep)\<close>: the elements in order, \<open>sep\<close> between neighbours.\<close>

fun strings_Join :: "string list \<Rightarrow> string \<Rightarrow> string" where
  "strings_Join [] sep = []"
| "strings_Join [x] sep = x"
| "strings_Join (x # y # ys) sep = x @ sep @ strings_Join (y # ys) sep"

section \<open>Package log\<close>

text \<open>\<open>const BodyLimit = 2 * 1 << 10\<close>: \<open>*\<close> and \<open><<\<close> have the same precedence in Go
  and associate to the left.\<close>

definition BodyLimit :: nat where
  "BodyLimit = push_bit 10 (2 * 1)"

definition formatBody :: "bytes \<Rightarrow> string" where
  "formatBody body =
     (if length body = 0 then []
      else if length body > BodyLimit then
        ''not logged: body size ('' @ fmt_d (int (length body))
          @ '' bytes) is bigger than limit ('' @ fmt_d (int BodyLimit) @ '' bytes)''
      else body)"

subsection \<open>The event and its sub-records\<close>

record request =
  rq_Method :: string
  rq_Host :: string
  rq_Path :: string
  rq_Query :: Values
  rq_Headers :: "(string, string) gomap"
  rq_Body :: string

record response =
  rs_StatusCode :: int
  rs_Headers :: "(string, string) gomap"
  rs_Body :: string

text \<open>The pointers \<open>*request\<close> and \<open>*response\<close> of the event are \<open>None\<close> when nil.\<close>

record event =
  e_Message :: string
  e_Timestamp :: string
  e_ReferenceID :: string
  e_User :: string
  e_Error :: string
  e_Context :: "(string, string) gomap"
  e_Request :: "request option"
  e_Response :: "response option"
  e_Hostname :: string

subsection \<open>Formatter\<close>

text \<open>The loop \<open>for header, values := range headers\<close> of \<open>formatHeaders\<close>, on the
  entries still to visit and the map \<open>h\<close> built so far.\<close>

fun formatHeaders_range ::
  "(string \<times> string list) list \<Rightarrow> (string \<times> string) list \<Rightarrow> (string \<times> string) list" where
  "formatHeaders_range [] h = h"
| "formatHeaders_range ((header, values) # rest) h =
     formatHeaders_range rest (assign header (strings_Join values '', '') h)"

definition formatHeaders :: "Header \<Rightarrow> (string, string) gomap" where
  "formatHeaders headers =
     (if len_map headers = 0 then None
      else Some (formatHeaders_range (entries headers) []))"

subsection \<open>Field composition\<close>

text \<open>A \<open>SetFieldValue\<close> is a \<open>func(*event)\<close>: it takes the event under construction and
  gives the event it leaves behind. \<open>Error\<close> takes the text \<open>err.Error()\<close> of its
  argument.\<close>

type_synonym SetFieldValue = "event \<Rightarrow> event"

definition ReferenceID :: "string \<Rightarrow> SetFieldValue" where
  "ReferenceID referenceID e = e\<lparr>e_ReferenceID := referenceID\<rparr>"

definition Error :: "string \<Rightarrow> SetFieldValue" where
  "Error err e = e\<lparr>e_Error := err\<rparr>"

definition User :: "string \<Rightarrow> SetFieldValue" where
  "User user e = e\<lparr>e_User := user\<rparr>"

definition Context :: "(string, string) gomap \<Rightarrow> SetFieldValue" where
  "Context cnt e = (if cnt = None then e else e\<lparr>e_Context := cnt\<rparr>)"

definition Request ::
  "string \<Rightarrow> string \<Rightarrow> string \<Rightarrow> Values \<Rightarrow> Header \<Rightarrow> bytes \<Rightarrow> SetFieldValue" where
  "Request method host path query headers body e =
     (if method = [] \<and> host = [] \<and> path = [] \<and> len_map query = 0
         \<and> len_map headers = 0 \<and> length body = 0
      then e
      else e\<lparr>e_Request := Some
             \<lparr>rq_Method = method, rq_Host = host, rq_Path = path, rq_Query = query,
              rq_Headers = formatHeaders headers, rq_Body = formatBody body\<rparr>\<rparr>)"

definition Response :: "int \<Rightarrow> Header \<Rightarrow> bytes \<Rightarrow> SetFieldValue" where
  "Response statusCode headers body e =
     (if statusCode = 0 \<and> len_map headers = 0 \<and> length body = 0
      then e
      else e\<lparr>e_Response := Some
             \<lparr>rs_StatusCode = statusCode, rs_Headers = formatHeaders headers,
              rs_Body = formatBody body\<rparr>\<rparr>)"

subsection \<open>The serialized form\<close>

text \<open>
  \<open>json.Marshal\<close> belongs to Go's standard library. Its work is split in two here. The
  first half, below, follows the struct tags of the source: it decides which members the
  JSON object of an event has. A field tagged \<open>omitempty\<close> is left out when it is the
  empty string, a nil pointer, or a map of length 0 (nil or empty), as the documentation
  of \<open>encoding/json\<close> states; \<open>status_code\<close> has no such tag. The members of a map stand
  in the order of the table. The second half, turning the object into bytes, is a parameter
  of \<open>Log\<close>.
\<close>

datatype json = JString string | JNumber int | JArray "json list" | JObject "(string \<times> json) list"

definition omitempty_string :: "string \<Rightarrow> string \<Rightarrow> (string \<times> json) list" where
  "omitempty_string key s = (if s = [] then [] else [(key, JString s)])"

definition omitempty_map :: "string \<Rightarrow> ('k, 'v) gomap \<Rightarrow> json \<Rightarrow> (string \<times> json) list" where
  "omitempty_map key m j = (if len_map m = 0 then [] else [(key, j)])"

definition omitempty_ptr :: "string \<Rightarrow> 'a option \<Rightarrow> ('a \<Rightarrow> json) \<Rightarrow> (string \<times> json) list" where
  "omitempty_ptr key p enc = (case p of None \<Rightarrow> [] | Some x \<Rightarrow> [(key, enc x)])"

definition json_strings :: "(string, string) gomap \<Rightarrow> json" where
  "json_strings m = JObject (map (\<lambda>(k, v). (k, JString v)) (entries m))"

definition json_values :: "Values \<Rightarrow> json" where
  "json_values m = JObject (map (\<lambda>(k, vs). (k, JArray (map JString vs))) (entries m))"

definition request_json :: "request \<Rightarrow> json" where
  "request_json r = JObject
     (omitempty_string ''method'' (rq_Method r)
      @ omitempty_string ''host'' (rq_Host r)
      @ omitempty_string ''path'' (rq_Path r)
      @ omitempty_map ''query'' (rq_Query r) (json_values (rq_Query r))
      @ omitempty_map ''headers'' (rq_Headers r) (json_strings (rq_Headers r))
      @ omitempty_string ''body'' (rq_Body r))"

definition response_json :: "response \<Rightarrow> json" where
  "response_json r = JObject
     ([(''status_code'', JNumber (rs_StatusCode r))]
      @ omitempty_map ''headers'' (rs_Headers r) (json_strings (rs_Headers r))
      @ omitempty_string ''body'' (rs_Body r))"

definition event_json :: "event \<Rightarrow> json" where
  "event_json e = JObject
     ([(''message'', JString (e_Message e)), (''timestamp'', JString (e_Timestamp e))]
      @ omitempty_string ''reference_id'' (e_ReferenceID e)
      @ omitempty_string ''user'' (e_User e)
      @ omitempty_string ''error'' (e_Error e)
      @ omitempty_map ''context'' (e_Context e) (json_strings (e_Context e))
      @ omitempty_ptr ''request'' (e_Request e) request_json
      @ omitempty_ptr ''response'' (e_Response e) response_json
      @ omitempty_string ''hostname'' (e_Hostname e))"

text \<open>The member of a JSON object under a key, if it has one.\<close>

definition member :: "json \<Rightarrow> string \<Rightarrow> json option" where
  "member j key = (case j of JObject kvs \<Rightarrow> map_of kvs key | _ \<Rightarrow> None)"

subsection \<open>Logger entry point\<close>

text \<open>The state outside: the sink that a \<open>Writer\<close> may keep, and what has been printed on
  standard output (where \<open>fmt.Printf\<close> prints).\<close>

record 's outside =
  sink :: 's
  printed :: "string list"

text \<open>
  What \<open>Log\<close> takes from outside the package: the process-wide \<open>Writer\<close> (\<open>None\<close> when
  nil), whose \<open>Write\<close> acts on the state outside and answers with an error or none;
  \<open>HOSTNAME\<close>; the reading \<open>time.Now().UTC().Format(time.RFC3339Nano)\<close> of the clock;
  the encoder of a JSON object into bytes, which may fail; and the verbs \<open>%q\<close> and
  \<open>%#v\<close> of package \<open>fmt\<close>.
\<close>

record 's runtime =
  Writer :: "(bytes \<Rightarrow> 's outside \<Rightarrow> string option \<times> 's outside) option"
  HOSTNAME :: string
  time_Now :: string
  json_encode :: "json \<Rightarrow> string + bytes"
  fmt_q :: "string \<Rightarrow> string"
  fmt_sharp_v :: "event \<Rightarrow> string"

text \<open>The event of a call, after every setter has run (the first half of \<open>Log\<close>).\<close>

definition Log_event :: "'s runtime \<Rightarrow> string \<Rightarrow> SetFieldValue list \<Rightarrow> event" where
  "Log_event rt message setters =
     fold (\<lambda>set e. set e) setters
       \<lparr>e_Message = message, e_Timestamp = time_Now rt, e_ReferenceID = [], e_User = [],
        e_Error = [], e_Context = None, e_Request = None, e_Response = None,
        e_Hostname = HOSTNAME rt\<rparr>"

definition json_Marshal :: "'s runtime \<Rightarrow> event \<Rightarrow> string + bytes" where
  "json_Marshal rt e = json_encode rt (event_json e)"

definition marshal_fallback :: "'s runtime \<Rightarrow> string \<Rightarrow> event \<Rightarrow> bytes" where
  "marshal_fallback rt err e =
     ''{\"message\": \"failed json.Marshal\", \"error\": '' @ fmt_q rt err
       @ '', \"reference_id\": '' @ fmt_q rt (e_ReferenceID e)
       @ '', \"context\": {\"event\": \"'' @ fmt_sharp_v rt e @ ''\"}}''"

definition write_failure :: "'s runtime \<Rightarrow> string \<Rightarrow> event \<Rightarrow> bytes \<Rightarrow> string" where
  "write_failure rt err e log =
     ''{\"message\": \"failed l.Writer.Write\", \"error\": '' @ fmt_q rt err
       @ '', \"reference_id\": '' @ fmt_q rt (e_ReferenceID e)
       @ '', \"context\": {\"data\": '' @ fmt_q rt log @ ''}}''"

definition Log :: "'s runtime \<Rightarrow> string \<Rightarrow> SetFieldValue list \<Rightarrow> 's outside \<Rightarrow> 's outside" where
  "Log rt message setters out =
     (case Writer rt of
        None \<Rightarrow> out
      | Some write \<Rightarrow>
          let e = Log_event rt message setters;
              log = (case json_Marshal rt e of
                       Inr b \<Rightarrow> b
                     | Inl err \<Rightarrow> marshal_fallback rt err e)
          in case write log out of
               (None, out') \<Rightarrow> out'
             | (Some err, out') \<Rightarrow>
                 out'\<lparr>printed := printed out' @ [write_failure rt err e log]\<rparr>)"

section \<open>Package middleware\<close>

subsection \<open>Requests, contexts and writers\<close>

text \<open>
  A value held by a \<open>context.Context\<close> has a dynamic type: a string, or something else.
  The context is the chain that \<open>context.WithValue\<close> builds, newest entry first;
  \<open>Value\<close> finds the newest entry of a key. Only string keys are kept: the keys of the
  HTTP server and of the router are of types of their own and never equal a string key.
\<close>

datatype dyn = Str string | Other

type_synonym go_context = "(string \<times> dyn) list"

definition WithValue :: "go_context \<Rightarrow> string \<Rightarrow> dyn \<Rightarrow> go_context" where
  "WithValue ctx key val = (key, val) # ctx"

definition Value :: "go_context \<Rightarrow> string \<Rightarrow> dyn option" where
  "Value ctx key = map_of ctx key"

text \<open>A body to read: \<open>ioutil.ReadAll\<close> returns the bytes it could read, and the error
  that stopped it, if any.\<close>

datatype reader = Reader bytes "string option"

fun ReadAll :: "reader \<Rightarrow> bytes \<times> string option" where
  "ReadAll (Reader data err) = (data, err)"

text \<open>The fields of \<open>*http.Request\<close> that the package reads: \<open>URL_Path\<close> is
  \<open>r.URL.Path\<close>, \<open>URL_Query\<close> is \<open>r.URL.Query()\<close>, \<open>Ctx\<close> is \<open>r.Context()\<close>; a nil
  \<open>Body\<close> is \<open>None\<close>.\<close>

record http_Request =
  Method :: string
  Host :: string
  URL_Path :: string
  URL_Query :: Values
  Header :: Header
  Body :: "reader option"
  Ctx :: go_context

text \<open>\<open>Header.Get\<close>: the first value under the canonical form of the key, or the empty
  string. The canonical form (\<open>textproto.CanonicalMIMEHeaderKey\<close>) is a parameter.\<close>

definition Header_Get :: "(string \<Rightarrow> string) \<Rightarrow> Header \<Rightarrow> string \<Rightarrow> string" where
  "Header_Get canon h key =
     (case lookup h (canon key) of
        None \<Rightarrow> []
      | Some [] \<Rightarrow> []
      | Some (v # vs) \<Rightarrow> v)"

text \<open>
  An \<open>http.ResponseWriter\<close> is known by the calls made on it, oldest first:
  \<open>w.Header().Set(k, v)\<close>, \<open>w.Header()[k] = vs\<close>, \<open>w.WriteHeader(code)\<close> and
  \<open>w.Write(p)\<close>.
\<close>

datatype call =
    Header_Set string string
  | Header_Assign string "string list"
  | WriteHeader int
  | Write bytes

type_synonym ResponseWriter = "call list"

text \<open>\<open>httptest.ResponseRecorder\<close>, with the fields the middleware reads, and
  \<open>httptest.NewRecorder()\<close>.\<close>

record ResponseRecorder =
  Code :: int
  HeaderMap :: Header
  rec_Body :: "reader option"

definition NewRecorder :: ResponseRecorder where
  "NewRecorder = \<lparr>Code = 200, HeaderMap = Some [], rec_Body = Some (Reader [] None)\<rparr>"

definition StatusInternalServerError :: int where
  "StatusInternalServerError = 500"

text \<open>A panic: of the type assertion \<open>v.(string)\<close> on a value that is no string, or one
  raised by a handler.\<close>

datatype panic = InterfaceConversion | HandlerPanic string

subsection \<open>Reading the context\<close>

definition GetReferenceID :: "http_Request \<Rightarrow> panic + string" where
  "GetReferenceID r =
     (case Value (Ctx r) ''reference_id'' of
        None \<Rightarrow> Inr []
      | Some (Str s) \<Rightarrow> Inr s
      | Some Other \<Rightarrow> Inl InterfaceConversion)"

definition GetUser :: "http_Request \<Rightarrow> panic + string" where
  "GetUser r =
     (case Value (Ctx r) ''user'' of
        None \<Rightarrow> Inr []
      | Some (Str s) \<Rightarrow> Inr s
      | Some Other \<Rightarrow> Inl InterfaceConversion)"

subsection \<open>Reference-ID middleware\<close>

text \<open>\<open>shortuuid_New\<close> is what \<open>shortuuid.New()\<close> returns when called. The wrapped
  handler is any function of the writer and the request.\<close>

definition middleware_ReferenceID ::
  "(string \<Rightarrow> string) \<Rightarrow> string \<Rightarrow> (ResponseWriter \<Rightarrow> http_Request \<Rightarrow> 'a)
     \<Rightarrow> ResponseWriter \<Rightarrow> http_Request \<Rightarrow> 'a" where
  "middleware_ReferenceID canon shortuuid_New handler w req =
     (let ref = Header_Get canon (Header req) ''Reference-ID'';
          ref = (if ref = [] then shortuuid_New else ref);
          ctx = WithValue (Ctx req) ''reference_id'' (Str ref);
          req = req\<lparr>Ctx := ctx\<rparr>;
          w = w @ [Header_Set ''Reference-ID'' ref]
      in handler w req)"

text \<open>The request contexts that this repository builds: the server's context, which has
  no string key, extended by the Reference-ID middleware, the only place of the repository
  that calls \<open>context.WithValue\<close>.\<close>

inductive reachable :: "go_context \<Rightarrow> bool" where
  server: "reachable []"
| referenceID: "reachable ctx \<Longrightarrow> reachable (WithValue ctx ''reference_id'' (Str ref))"

subsection \<open>Capture middleware\<close>

text \<open>
  What the middleware leaves outside: the calls on the real response writer, and the calls
  of \<open>log.Log\<close> (message and setters), both oldest first.
\<close>

type_synonym log_call = "string \<times> SetFieldValue list"

record world =
  calls :: ResponseWriter
  logged :: "log_call list"

text \<open>The error reply of the failure paths.\<close>

definition reply_reference_id :: "string \<Rightarrow> call list" where
  "reply_reference_id refID =
     [Header_Set ''Content-Type'' ''application/json'',
      WriteHeader StatusInternalServerError,
      Write (''{\"reference_id\": \"'' @ refID @ ''\"}'')]"

text \<open>
  A wrapped handler is given the recorder and the request; it panics, or it returns, leaving
  the recorder in some state and having called \<open>log.Log\<close> some number of times. As
  \<open>http.Handler\<close> demands, it does not change the request. \<open>gosyntax\<close> is the verb \<open>%#v\<close>
  on a body or a byte slice, and \<open>w_Write\<close> is the answer of the real writer's \<open>Write\<close>.
\<close>

type_synonym HandlerFunc = "ResponseRecorder \<Rightarrow> http_Request \<Rightarrow> panic + ResponseRecorder \<times> log_call list"

definition log_Request :: "http_Request \<Rightarrow> bytes \<Rightarrow> SetFieldValue" where
  "log_Request r body =
     Request (Method r) (Host r) (URL_Path r) (URL_Query r) (Header r) body"

definition replay :: "ResponseRecorder \<Rightarrow> bytes \<Rightarrow> call list" where
  "replay rec respBody =
     map (\<lambda>(k, v). Header_Assign k v) (entries (HeaderMap rec))
     @ [WriteHeader (Code rec)]
     @ (if length respBody > 0 then [Write respBody] else [])"

definition inbound_message :: "http_Request \<Rightarrow> int \<Rightarrow> string" where
  "inbound_message r code =
     ''in '' @ [CHR 0x27] @ Method r @ '' '' @ (Host r @ URL_Path r) @ [CHR 0x27] @ '' ''
       @ fmt_d code"

definition RequestResponseLogger_finish ::
  "(bytes \<Rightarrow> string) \<Rightarrow> (bytes \<Rightarrow> string option) \<Rightarrow> string \<Rightarrow> string \<Rightarrow> http_Request
     \<Rightarrow> bytes \<Rightarrow> ResponseRecorder \<Rightarrow> bytes \<Rightarrow> world \<Rightarrow> world" where
  "RequestResponseLogger_finish gosyntax w_Write refID user r reqBody rec respBody wd =
     (let wd = wd\<lparr>calls := calls wd @ replay rec respBody\<rparr>;
          wd = (if length respBody > 0 then
                  (case w_Write respBody of
                     Some err \<Rightarrow>
                       wd\<lparr>logged := logged wd @
                         [(''failed w.Write'',
                           [ReferenceID refID, User user, Error err,
                            Context (Some [(''body'', gosyntax respBody)]),
                            log_Request r reqBody,
                            Response (Code rec) (HeaderMap rec) respBody])]\<rparr>
                   | None \<Rightarrow> wd)
                else wd)
      in wd\<lparr>logged := logged wd @
           [(inbound_message r (Code rec),
             [ReferenceID refID, User user, log_Request r reqBody,
              Response (Code rec) (HeaderMap rec) respBody])]\<rparr>)"

definition RequestResponseLogger_serve ::
  "(reader \<Rightarrow> string) \<Rightarrow> (bytes \<Rightarrow> string) \<Rightarrow> HandlerFunc \<Rightarrow> (bytes \<Rightarrow> string option)
     \<Rightarrow> string \<Rightarrow> string \<Rightarrow> http_Request \<Rightarrow> bytes \<Rightarrow> world \<Rightarrow> panic + world" where
  "RequestResponseLogger_serve gosyntax_body gosyntax handler w_Write refID user r reqBody wd =
     (case handler NewRecorder r of
        Inl p \<Rightarrow> Inl p
      | Inr (rec, handler_logged) \<Rightarrow>
          let wd = wd\<lparr>logged := logged wd @ handler_logged\<rparr> in
          (case rec_Body rec of
             None \<Rightarrow>
               Inr (RequestResponseLogger_finish gosyntax w_Write refID user r reqBody rec [] wd)
           | Some b \<Rightarrow>
               (case ReadAll b of
                  (respBody, Some err) \<Rightarrow>
                    Inr (wd\<lparr>logged := logged wd @
                           [(''failed ioutil.ReadAll'',
                             [Error err, ReferenceID refID, User user,
                              Context (Some [(''body'', gosyntax_body b)]),
                              log_Request r reqBody,
                              Response (Code rec) (HeaderMap rec) []])],
                         calls := calls wd @ reply_reference_id refID\<rparr>)
                | (respBody, None) \<Rightarrow>
                    Inr (RequestResponseLogger_finish gosyntax w_Write refID user r reqBody
                           rec respBody wd))))"

definition RequestResponseLogger ::
  "(reader \<Rightarrow> string) \<Rightarrow> (bytes \<Rightarrow> string) \<Rightarrow> HandlerFunc \<Rightarrow> (bytes \<Rightarrow> string option)
     \<Rightarrow> world \<Rightarrow> http_Request \<Rightarrow> panic + world" where
  "RequestResponseLogger gosyntax_body gosyntax handler w_Write wd r =
     (case GetReferenceID r of
        Inl p \<Rightarrow> Inl p
      | Inr refID \<Rightarrow>
     (case GetUser r of
        Inl p \<Rightarrow> Inl p
      | Inr user \<Rightarrow>
     (case Body r of
        None \<Rightarrow>
          RequestResponseLogger_serve gosyntax_body gosyntax handler w_Write refID user r [] wd
      | Some b \<Rightarrow>
          (case ReadAll b of
             (reqBody, Some err) \<Rightarrow>
               Inr (wd\<lparr>logged := logged wd @
                      [(''failed ioutil.ReadAll'',
                        [ReferenceID refID, User user, Error err,
                         Context (Some [(''body'', gosyntax_body b)]),
                         log_Request r []])],
                    calls := calls wd @ reply_reference_id refID\<rparr>)
           | (reqBody, None) \<Rightarrow>
               RequestResponseLogger_serve gosyntax_body gosyntax handler w_Write refID user
                 (r\<lparr>Body := Some (Reader reqBody None)\<rparr>) reqBody wd))))"

section \<open>Decimal numerals\<close>

lemma BodyLimit_eq: "BodyLimit = 2048"
  by (simp add: BodyLimit_def push_bit_eq_mult)

lemma length_dec: "length (dec n) \<le> 1 + n div 10"
proof (induction n rule: dec.induct)
  case (1 n)
  show ?case
  proof (cases "n < 10")
    case True
    then show ?thesis by (subst dec.simps) simp
  next
    case False
    then have "length (dec (n div 10)) \<le> 1 + n div 10 div 10"
      using "1" by simp
    moreover have "dec n = dec (n div 10) @ [digit (n mod 10)]"
      using False by (subst dec.simps) simp
    ultimately show ?thesis using False by simp
  qed
qed

lemma length_fmt_d_nat: "length (fmt_d (int n)) \<le> 1 + n div 10"
  using length_dec [of n] by (simp add: fmt_d_def)

section \<open>The body formatter\<close>

lemma formatBody_small: "length body \<le> 2048 \<Longrightarrow> formatBody body = body"
  by (simp add: formatBody_def BodyLimit_eq)

lemma formatBody_big:
  "length body > 2048 \<Longrightarrow>
   formatBody body =
     ''not logged: body size ('' @ fmt_d (int (length body))
       @ '' bytes) is bigger than limit ('' @ fmt_d 2048 @ '' bytes)''"
  by (auto simp add: formatBody_def BodyLimit_eq)

lemma formatBody_big_length:
  assumes "length body > 2048"
  shows "length (formatBody body) < length body"
proof -
  have a: "length (fmt_d (int (length body))) \<le> 1 + length body div 10"
    by (rule length_fmt_d_nat)
  have b: "length (fmt_d 2048) \<le> 1 + 2048 div (10::nat)"
    using length_fmt_d_nat [of 2048] by simp
  show ?thesis
    using assms a b by (simp add: formatBody_big)
qed

text \<open>
  Claim C2. For every byte sequence given to the body formatter: a body of at most 2048
  bytes is returned unchanged, and a body of more than 2048 bytes is replaced by the
  fixed diagnostic string that states the actual size and the limit; that string is
  shorter than the body, so the raw content is not part of it.
\<close>

theorem formatBody_limit:
  "(length body \<le> 2048 \<longrightarrow> formatBody body = body) \<and>
   (length body > 2048 \<longrightarrow>
      formatBody body =
        ''not logged: body size ('' @ fmt_d (int (length body))
          @ '' bytes) is bigger than limit ('' @ fmt_d 2048 @ '' bytes)'' \<and>
      formatBody body \<noteq> body \<and>
      \<not> sublist body (formatBody body))"
proof (intro conjI impI)
  assume "length body \<le> 2048"
  then show "formatBody body = body" by (rule formatBody_small)
next
  assume big: "length body > 2048"
  then show "formatBody body =
        ''not logged: body size ('' @ fmt_d (int (length body))
          @ '' bytes) is bigger than limit ('' @ fmt_d 2048 @ '' bytes)''"
    by (rule formatBody_big)
  have shorter: "length (formatBody body) < length body"
    using big by (rule formatBody_big_length)
  then show "formatBody body \<noteq> body" by auto
  show "\<not> sublist body (formatBody body)"
  proof
    assume "sublist body (formatBody body)"
    then have "length body \<le> length (formatBody body)" by (rule sublist_length_le)
    with shorter show False by simp
  qed
qed

theorem formatBody_limit_witness:
  "formatBody ''hi'' = ''hi'' \<and>
   \<not> sublist (replicate 2049 (CHR ''a'')) (formatBody (replicate 2049 (CHR ''a'')))"
proof
  show "formatBody ''hi'' = ''hi''"
    using formatBody_limit [of "''hi''"] by simp
  have "length (replicate 2049 (CHR ''a'')) > 2048" by simp
  with formatBody_limit [of "replicate 2049 (CHR ''a'')"]
  show "\<not> sublist (replicate 2049 (CHR ''a'')) (formatBody (replicate 2049 (CHR ''a'')))"
    by blast
qed

section \<open>Members of the serialized event\<close>

lemma omitempty_string_skip:
  "key \<noteq> k \<Longrightarrow> map_of (omitempty_string k s @ rest) key = map_of rest key"
  by (simp add: omitempty_string_def)

lemma omitempty_map_skip:
  "key \<noteq> k \<Longrightarrow> map_of (omitempty_map k m j @ rest) key = map_of rest key"
  by (simp add: omitempty_map_def)


lemma omitempty_map_hit:
  "map_of (omitempty_map key m j @ rest) key = (if len_map m = 0 then map_of rest key else Some j)"
  by (simp add: omitempty_map_def)


lemma omitempty_string_last:
  "key \<noteq> k \<Longrightarrow> map_of (omitempty_string k s) key = None"
  by (simp add: omitempty_string_def)




lemma member_request_headers:
  "member (request_json r) ''headers'' =
     (if len_map (rq_Headers r) = 0 then None else Some (json_strings (rq_Headers r)))"
  by (simp add: member_def request_json_def omitempty_string_skip omitempty_map_skip
      omitempty_map_hit omitempty_string_last del: map_of_append)

lemma member_response_headers:
  "member (response_json r) ''headers'' =
     (if len_map (rs_Headers r) = 0 then None else Some (json_strings (rs_Headers r)))"
  by (simp add: member_def response_json_def omitempty_map_hit omitempty_string_last del: map_of_append)

section \<open>Omission of empty composite fields\<close>









text \<open>
  Claim C10. On every event under construction, the \<open>Context\<close> option with a nil mapping,
  the \<open>Request\<close> option with empty method, host, path, query, headers and body, and the
  \<open>Response\<close> option with status code zero and empty headers and body each return the event
  as it was: what an earlier option has set stays.
\<close>

theorem empty_options_identity:
  "Context None e = e \<and>
   (len_map query = 0 \<and> len_map headers = 0 \<and> length body = 0 \<longrightarrow>
      Request [] [] [] query headers body e = e) \<and>
   (len_map headers = 0 \<and> length body = 0 \<longrightarrow> Response 0 headers body e = e)"
  by (simp add: Context_def Request_def Response_def)

theorem empty_options_identity_witness:
  "e_Request (Request [] [] [] None (Some []) []
      (Request ''GET'' ''example.org'' ''/p'' None None []
        \<lparr>e_Message = ''m'', e_Timestamp = ''t'', e_ReferenceID = [], e_User = [], e_Error = [],
         e_Context = None, e_Request = None, e_Response = None, e_Hostname = ''h''\<rparr>)) \<noteq> None \<and>
   e_Response (Response 0 None []
      (Response 201 None ''ok''
        \<lparr>e_Message = ''m'', e_Timestamp = ''t'', e_ReferenceID = [], e_User = [], e_Error = [],
         e_Context = None, e_Request = None, e_Response = None, e_Hostname = ''h''\<rparr>)) \<noteq> None"
  using
    empty_options_identity [where query = None and headers = "Some []" and body = "[]"
      and e = "Request ''GET'' ''example.org'' ''/p'' None None []
        \<lparr>e_Message = ''m'', e_Timestamp = ''t'', e_ReferenceID = [], e_User = [], e_Error = [],
         e_Context = None, e_Request = None, e_Response = None, e_Hostname = ''h''\<rparr>"]
    empty_options_identity [where query = None and headers = None and body = "[]"
      and e = "Response 201 None ''ok''
        \<lparr>e_Message = ''m'', e_Timestamp = ''t'', e_ReferenceID = [], e_User = [], e_Error = [],
         e_Context = None, e_Request = None, e_Response = None, e_Hostname = ''h''\<rparr>"]
  by (simp add: len_map_def Request_def Response_def)

section \<open>Header flattening\<close>

lemma map_of_assign:
  "map_of (assign k v kvs) k' = (if k' = k then Some v else map_of kvs k')"
  by (induction kvs) auto

lemma assign_not_Nil: "assign k v kvs \<noteq> []"
  by (cases kvs) (auto split: if_splits)

lemma formatHeaders_range_not_Nil:
  "xs \<noteq> [] \<or> h \<noteq> [] \<Longrightarrow> formatHeaders_range xs h \<noteq> []"
  by (induction xs h rule: formatHeaders_range.induct) (auto simp add: assign_not_Nil)

lemma map_of_formatHeaders_range:
  "distinct (map fst xs) \<Longrightarrow>
   map_of (formatHeaders_range xs h) name =
     (case map_of xs name of
        Some values \<Rightarrow> Some (strings_Join values '', '')
      | None \<Rightarrow> map_of h name)"
proof (induction xs h rule: formatHeaders_range.induct)
  case (1 h)
  then show ?case by simp
next
  case (2 k vs rest h)
  have absent: "map_of rest k = None"
    using "2.prems" by (simp add: map_of_eq_None_iff)
  show ?case
  proof (cases "name = k")
    case True
    then show ?thesis using "2" absent by (simp add: map_of_assign)
  next
    case False
    then show ?thesis using "2" by (simp add: map_of_assign split: option.splits)
  qed
qed

lemma map_of_formatHeaders_range_rev:
  "map_of (formatHeaders_range xs h) name =
     (case map_of (rev xs) name of
        Some vs \<Rightarrow> Some (strings_Join vs '', '')
      | None \<Rightarrow> map_of h name)"
  by (induction xs h rule: formatHeaders_range.induct)
    (auto simp add: map_of_assign map_add_def split: option.splits)

lemma strings_Join_concat:
  "strings_Join (v # vs) sep = v @ concat (map (\<lambda>x. sep @ x) vs)"
  by (induction vs arbitrary: v) auto

lemma formatHeaders_not_empty: "formatHeaders headers \<noteq> Some []"
proof (cases "len_map headers = 0")
  case True
  then show ?thesis by (simp add: formatHeaders_def)
next
  case False
  then have "entries headers \<noteq> []"
    by (cases headers) (auto simp add: len_map_def entries_def)
  then show ?thesis
    using False formatHeaders_range_not_Nil [of "entries headers" "[]"]
    by (simp add: formatHeaders_def)
qed

text \<open>
  Claim C4. For every header mapping (a Go map, holding each name once), the formatted
  mapping has the same names, and under each name the values of the header joined by
  \<open>", "\<close> in their order: the first value, then each further value after a \<open>", "\<close>.
  (For any table of entries: under each name, the joined values of the entry of that name
  that the loop visits last.) An
  empty header mapping (nil or empty) is formatted to nil, and the sub-record built from it
  is serialized without a \<open>headers\<close> member; the formatted mapping is never an empty
  mapping, and neither is the serialized member.
\<close>

theorem formatHeaders_flattened:
  "(wf_map headers \<longrightarrow>
      lookup (formatHeaders headers) name =
        map_option (\<lambda>values. strings_Join values '', '') (lookup headers name)) \<and>
   lookup (formatHeaders headers) name =
     map_option (\<lambda>values. strings_Join values '', '') (map_of (rev (entries headers)) name) \<and>
   strings_Join [] '', '' = [] \<and>
   strings_Join (v # vs) '', '' = v @ concat (map (\<lambda>x. '', '' @ x) vs) \<and>
   (len_map headers = 0 \<longrightarrow>
      formatHeaders headers = None \<and>
      member (request_json (rq\<lparr>rq_Headers := formatHeaders headers\<rparr>)) ''headers'' = None \<and>
      member (response_json (rs\<lparr>rs_Headers := formatHeaders headers\<rparr>)) ''headers'' = None) \<and>
   formatHeaders headers \<noteq> Some [] \<and>
   member (request_json (rq\<lparr>rq_Headers := formatHeaders headers\<rparr>)) ''headers''
     \<noteq> Some (JObject []) \<and>
   member (response_json (rs\<lparr>rs_Headers := formatHeaders headers\<rparr>)) ''headers''
     \<noteq> Some (JObject [])"
proof -
  have flat: "lookup (formatHeaders headers) name =
        map_option (\<lambda>values. strings_Join values '', '') (lookup headers name)"
    if wf: "wf_map headers"
  proof (cases "len_map headers = 0")
    case True
    then have "entries headers = []"
      by (cases headers) (auto simp add: len_map_def entries_def)
    then show ?thesis
      using True by (simp add: formatHeaders_def lookup_def entries_def)
  next
    case False
    have "map_of (formatHeaders_range (entries headers) []) name =
        (case map_of (entries headers) name of
           Some values \<Rightarrow> Some (strings_Join values '', '')
         | None \<Rightarrow> map_of [] name)"
      using wf by (intro map_of_formatHeaders_range) (simp add: wf_map_def)
    then show ?thesis
      using False by (simp add: formatHeaders_def lookup_def entries_def split: option.splits)
  qed
  have last: "lookup (formatHeaders headers) name =
     map_option (\<lambda>values. strings_Join values '', '') (map_of (rev (entries headers)) name)"
  proof (cases "len_map headers = 0")
    case True
    then have "entries headers = []"
      by (cases headers) (auto simp add: len_map_def entries_def)
    then show ?thesis
      using True by (simp add: formatHeaders_def lookup_def entries_def)
  next
    case False
    then show ?thesis
      using map_of_formatHeaders_range_rev [of "entries headers" "[]" name]
      by (simp add: formatHeaders_def lookup_def entries_def split: option.splits)
  qed
  have nil: "formatHeaders headers = None" if "len_map headers = 0"
    using that by (simp add: formatHeaders_def)
  have ne: "formatHeaders headers \<noteq> Some []"
    by (rule formatHeaders_not_empty)
  have obj: "json_strings m \<noteq> JObject []" if "len_map m \<noteq> 0" for m :: "(string, string) gomap"
    using that by (cases m) (auto simp add: json_strings_def entries_def len_map_def)
  have rqm: "member (request_json (rq\<lparr>rq_Headers := formatHeaders headers\<rparr>)) ''headers''
     \<noteq> Some (JObject [])"
    using obj [of "formatHeaders headers"] by (simp add: member_request_headers)
  have rsm: "member (response_json (rs\<lparr>rs_Headers := formatHeaders headers\<rparr>)) ''headers''
     \<noteq> Some (JObject [])"
    using obj [of "formatHeaders headers"] by (simp add: member_response_headers)
  have rq0: "member (request_json (rq\<lparr>rq_Headers := formatHeaders headers\<rparr>)) ''headers'' = None"
    if "len_map headers = 0"
    using nil [OF that] by (simp add: member_request_headers len_map_def)
  have rs0: "member (response_json (rs\<lparr>rs_Headers := formatHeaders headers\<rparr>)) ''headers'' = None"
    if "len_map headers = 0"
    using nil [OF that] by (simp add: member_response_headers len_map_def)
  show ?thesis
    using flat last nil ne rqm rsm rq0 rs0 strings_Join_concat [of v vs "'', ''"]
    by simp
qed

theorem formatHeaders_flattened_witness:
  "lookup (formatHeaders (Some [(''X'', [''a'', ''b'']), (''Y'', [''c''])])) ''X'' = Some ''a, b'' \<and>
   formatHeaders (Some []) = None \<and>
   member (request_json
      \<lparr>rq_Method = ''GET'', rq_Host = [], rq_Path = [], rq_Query = None,
       rq_Headers = formatHeaders (Some []), rq_Body = []\<rparr>) ''headers'' = None"
proof -
  have wf: "wf_map (Some [(''X'', [''a'', ''b'']), (''Y'', [''c''])])"
    by (simp add: wf_map_def entries_def)
  have len: "len_map (Some [] :: Header) = 0"
    by (simp add: len_map_def)
  note t1 = formatHeaders_flattened [of "Some [(''X'', [''a'', ''b'']), (''Y'', [''c''])]"
      "''X''" "''a''" "[''b'']"
      "\<lparr>rq_Method = ''GET'', rq_Host = [], rq_Path = [], rq_Query = None,
        rq_Headers = None, rq_Body = []\<rparr>"
      "\<lparr>rs_StatusCode = 200, rs_Headers = None, rs_Body = []\<rparr>"]
  note t2 = formatHeaders_flattened [of "Some []" "''X''" "''a''" "[''b'']"
      "\<lparr>rq_Method = ''GET'', rq_Host = [], rq_Path = [], rq_Query = None,
        rq_Headers = None, rq_Body = []\<rparr>"
      "\<lparr>rs_StatusCode = 200, rs_Headers = None, rs_Body = []\<rparr>"]
  from t1 wf have "lookup (formatHeaders (Some [(''X'', [''a'', ''b'']), (''Y'', [''c''])])) ''X''
      = Some ''a, b''"
    by (simp add: lookup_def entries_def)
  moreover from t2 len have "formatHeaders (Some []) = None" by blast
  moreover from t2 len have "member (request_json
      (\<lparr>rq_Method = ''GET'', rq_Host = [], rq_Path = [], rq_Query = None,
        rq_Headers = None, rq_Body = []\<rparr>\<lparr>rq_Headers := formatHeaders (Some [])\<rparr>))
      ''headers'' = None"
    by blast
  then have "member (request_json
      \<lparr>rq_Method = ''GET'', rq_Host = [], rq_Path = [], rq_Query = None,
       rq_Headers = formatHeaders (Some []), rq_Body = []\<rparr>) ''headers'' = None"
    by simp
  ultimately show ?thesis by blast
qed

section \<open>Failures inside the logger\<close>

text \<open>
  Claim C7. In a call of \<open>Log\<close> with a writer set: when serialization of the event fails
  with an error, the bytes given to the writer are the fixed fallback message, which
  embeds the quoted error text, the quoted reference id of the event and the dump of the
  event. When the write fails, whatever bytes were to be written, \<open>Log\<close> still returns:
  it leaves the state the writer left, with one line added to what is printed on standard
  output, and no other trace. \<open>Log\<close> has no result through which a failure could reach its
  caller.
\<close>

theorem Log_failures:
  "(Writer rt = Some write \<longrightarrow>
      json_Marshal rt (Log_event rt message setters) = Inl err \<longrightarrow>
      write (marshal_fallback rt err (Log_event rt message setters)) out = (res, out') \<longrightarrow>
      Log rt message setters out =
        (case res of
           None \<Rightarrow> out'
         | Some werr \<Rightarrow>
             out'\<lparr>printed := printed out' @
               [write_failure rt werr (Log_event rt message setters)
                  (marshal_fallback rt err (Log_event rt message setters))]\<rparr>)) \<and>
   marshal_fallback rt err e =
     ''{\"message\": \"failed json.Marshal\", \"error\": '' @ fmt_q rt err
       @ '', \"reference_id\": '' @ fmt_q rt (e_ReferenceID e)
       @ '', \"context\": {\"event\": \"'' @ fmt_sharp_v rt e @ ''\"}}'' \<and>
   (Writer rt = Some write \<longrightarrow>
      json_Marshal rt (Log_event rt message setters) = Inr log \<longrightarrow>
      write log out = (Some werr, out') \<longrightarrow>
      Log rt message setters out =
        out'\<lparr>printed := printed out' @
          [write_failure rt werr (Log_event rt message setters) log]\<rparr>) \<and>
   (Writer rt = None \<longrightarrow> Log rt message setters out = out)"
  by (auto simp add: Log_def Let_def marshal_fallback_def split: option.splits)

theorem Log_failures_witness:
  "Log (\<lparr>Writer = Some (\<lambda>p out. (None, out\<lparr>sink := sink out @ [p]\<rparr>)), HOSTNAME = ''h'',
       time_Now = ''t'', json_encode = (\<lambda>j. Inl ''unsupported value''), fmt_q = (\<lambda>s. s),
       fmt_sharp_v = (\<lambda>e. e_Message e)\<rparr>) ''m'' [ReferenceID ''r1'']
      \<lparr>sink = [], printed = []\<rparr> =
     \<lparr>sink =
        [''{\"message\": \"failed json.Marshal\", \"error\": unsupported value, \"reference_id\": r1, \"context\": {\"event\": \"m\"}}''],
      printed = []\<rparr> \<and>
   Log (\<lparr>Writer = Some (\<lambda>p out. (Some ''closed pipe'', out)), HOSTNAME = ''h'',
       time_Now = ''t'', json_encode = (\<lambda>j. Inr ''{}''), fmt_q = (\<lambda>s. s),
       fmt_sharp_v = (\<lambda>e. e_Message e)\<rparr>) ''m'' [ReferenceID ''r1'']
      \<lparr>sink = (), printed = []\<rparr> =
     \<lparr>sink = (),
      printed =
        [''{\"message\": \"failed l.Writer.Write\", \"error\": closed pipe, \"reference_id\": r1, \"context\": {\"data\": {}}}'']\<rparr>"
proof -
  note t1 = Log_failures [of "\<lparr>Writer = Some (\<lambda>p out. (None, out\<lparr>sink := sink out @ [p]\<rparr>)), HOSTNAME = ''h'',
       time_Now = ''t'', json_encode = (\<lambda>j. Inl ''unsupported value''), fmt_q = (\<lambda>s. s),
       fmt_sharp_v = (\<lambda>e. e_Message e)\<rparr>"
      "\<lambda>p out. (None, out\<lparr>sink := sink out @ [p]\<rparr>)" "''m''" "[ReferenceID ''r1'']"
      "''unsupported value''" "\<lparr>sink = [], printed = []\<rparr>" None
      "\<lparr>sink = [marshal_fallback (\<lparr>Writer = Some (\<lambda>p out. (None, out\<lparr>sink := sink out @ [p]\<rparr>)), HOSTNAME = ''h'',
       time_Now = ''t'', json_encode = (\<lambda>j. Inl ''unsupported value''), fmt_q = (\<lambda>s. s),
       fmt_sharp_v = (\<lambda>e. e_Message e)\<rparr>) ''unsupported value''
          (Log_event (\<lparr>Writer = Some (\<lambda>p out. (None, out\<lparr>sink := sink out @ [p]\<rparr>)), HOSTNAME = ''h'',
       time_Now = ''t'', json_encode = (\<lambda>j. Inl ''unsupported value''), fmt_q = (\<lambda>s. s),
       fmt_sharp_v = (\<lambda>e. e_Message e)\<rparr>) ''m'' [ReferenceID ''r1''])], printed = []\<rparr>"]
  note t2 = Log_failures [of "\<lparr>Writer = Some (\<lambda>p out. (Some ''closed pipe'', out)), HOSTNAME = ''h'',
       time_Now = ''t'', json_encode = (\<lambda>j. Inr ''{}''), fmt_q = (\<lambda>s. s),
       fmt_sharp_v = (\<lambda>e. e_Message e)\<rparr>"
      "\<lambda>p out. (Some ''closed pipe'', out)" "''m''" "[ReferenceID ''r1'']"
      "''x''" "\<lparr>sink = (), printed = []\<rparr>" None
      "\<lparr>sink = (), printed = []\<rparr>" _ "''{}''" "''closed pipe''"]
  from t1 have "Log (\<lparr>Writer = Some (\<lambda>p out. (None, out\<lparr>sink := sink out @ [p]\<rparr>)), HOSTNAME = ''h'',
       time_Now = ''t'', json_encode = (\<lambda>j. Inl ''unsupported value''), fmt_q = (\<lambda>s. s),
       fmt_sharp_v = (\<lambda>e. e_Message e)\<rparr>) ''m'' [ReferenceID ''r1'']
      \<lparr>sink = [], printed = []\<rparr> =
     \<lparr>sink =
        [''{\"message\": \"failed json.Marshal\", \"error\": unsupported value, \"reference_id\": r1, \"context\": {\"event\": \"m\"}}''],
      printed = []\<rparr>"
    by (simp add: json_Marshal_def Log_event_def ReferenceID_def marshal_fallback_def)
  moreover from t2 have "Log (\<lparr>Writer = Some (\<lambda>p out. (Some ''closed pipe'', out)), HOSTNAME = ''h'',
       time_Now = ''t'', json_encode = (\<lambda>j. Inr ''{}''), fmt_q = (\<lambda>s. s),
       fmt_sharp_v = (\<lambda>e. e_Message e)\<rparr>) ''m'' [ReferenceID ''r1'']
      \<lparr>sink = (), printed = []\<rparr> =
     \<lparr>sink = (),
      printed =
        [''{\"message\": \"failed l.Writer.Write\", \"error\": closed pipe, \"reference_id\": r1, \"context\": {\"data\": {}}}'']\<rparr>"
    by (simp add: json_Marshal_def Log_event_def ReferenceID_def write_failure_def)
  ultimately show ?thesis by blast
qed

section \<open>Reference id and user of a request\<close>

lemma reachable_values:
  "reachable ctx \<Longrightarrow>
   (Value ctx ''reference_id'' = None \<or> (\<exists>s. Value ctx ''reference_id'' = Some (Str s)))
     \<and> Value ctx ''user'' = None"
  by (induction rule: reachable.induct) (auto simp add: Value_def WithValue_def)

lemma GetReferenceID_cases:
  "GetReferenceID r =
     (case Value (Ctx r) ''reference_id'' of
        None \<Rightarrow> Inr [] | Some (Str s) \<Rightarrow> Inr s | Some Other \<Rightarrow> Inl InterfaceConversion)"
  by (simp add: GetReferenceID_def)

text \<open>
  Claim C9. \<open>GetReferenceID\<close> and \<open>GetUser\<close> give the empty string when the context has no
  value under their key, and the stored string when it has one; they fail only on a stored
  value that is not a string. No context that this repository builds holds such a value:
  on every reachable request context both functions return.
\<close>

theorem GetReferenceID_GetUser_total:
  "(Value (Ctx r) ''reference_id'' = None \<longrightarrow> GetReferenceID r = Inr []) \<and>
   (Value (Ctx r) ''user'' = None \<longrightarrow> GetUser r = Inr []) \<and>
   (Value (Ctx r) ''reference_id'' = Some (Str s) \<longrightarrow> GetReferenceID r = Inr s) \<and>
   (Value (Ctx r) ''user'' = Some (Str s) \<longrightarrow> GetUser r = Inr s) \<and>
   ((\<exists>p. GetReferenceID r = Inl p) \<longleftrightarrow> Value (Ctx r) ''reference_id'' = Some Other) \<and>
   ((\<exists>p. GetUser r = Inl p) \<longleftrightarrow> Value (Ctx r) ''user'' = Some Other) \<and>
   (reachable (Ctx r) \<longrightarrow> (\<exists>refID. GetReferenceID r = Inr refID) \<and> GetUser r = Inr [])"
proof -
  have "(\<exists>refID. GetReferenceID r = Inr refID) \<and> GetUser r = Inr []" if "reachable (Ctx r)"
    using reachable_values [OF that] by (auto simp add: GetReferenceID_def GetUser_def)
  moreover have "(\<exists>p. GetReferenceID r = Inl p) \<longleftrightarrow> Value (Ctx r) ''reference_id'' = Some Other"
    by (auto simp add: GetReferenceID_def split: option.splits dyn.splits)
  moreover have "(\<exists>p. GetUser r = Inl p) \<longleftrightarrow> Value (Ctx r) ''user'' = Some Other"
    by (auto simp add: GetUser_def split: option.splits dyn.splits)
  ultimately show ?thesis
    by (simp add: GetReferenceID_def GetUser_def)
qed

theorem GetReferenceID_GetUser_total_witness:
  "GetReferenceID
     \<lparr>Method = ''GET'', Host = ''h'', URL_Path = ''/'', URL_Query = None, Header = None,
      Body = None, Ctx = WithValue [] ''reference_id'' (Str ''abc'')\<rparr> = Inr ''abc'' \<and>
   GetUser
     \<lparr>Method = ''GET'', Host = ''h'', URL_Path = ''/'', URL_Query = None, Header = None,
      Body = None, Ctx = WithValue [] ''reference_id'' (Str ''abc'')\<rparr> = Inr []"
proof -
  have reach: "reachable (WithValue [] ''reference_id'' (Str ''abc''))"
    by (intro reachable.intros)
  have v: "Value (WithValue [] ''reference_id'' (Str ''abc'')) ''reference_id'' = Some (Str ''abc'')"
    by (simp add: Value_def WithValue_def)
  note t = GetReferenceID_GetUser_total [of
      "\<lparr>Method = ''GET'', Host = ''h'', URL_Path = ''/'', URL_Query = None, Header = None,
        Body = None, Ctx = WithValue [] ''reference_id'' (Str ''abc'')\<rparr>" "''abc''"]
  from t reach v show ?thesis by simp
qed

section \<open>The Reference-ID middleware\<close>

text \<open>
  Claim C8. For every request, writer and wrapped handler: the middleware reads the
  \<open>Reference-ID\<close> request header with \<open>Header.Get\<close> (the first value under the canonical
  key). If that value is non-empty it is the id, unchanged; otherwise the id is the newly
  generated one. The handler is then invoked on a request whose context holds the id under
  \<open>reference_id\<close> (so \<open>GetReferenceID\<close> returns it) and on a writer whose last call so far
  is the setting of the \<open>Reference-ID\<close> response header to the id.
\<close>

theorem middleware_ReferenceID_propagates:
  "(lookup (Header req) (canon ''Reference-ID'') = Some (v # vs) \<longrightarrow> v \<noteq> [] \<longrightarrow>
      middleware_ReferenceID canon shortuuid_New handler w req =
        handler (w @ [Header_Set ''Reference-ID'' v])
          (req\<lparr>Ctx := WithValue (Ctx req) ''reference_id'' (Str v)\<rparr>)) \<and>
   (lookup (Header req) (canon ''Reference-ID'') = None
      \<or> lookup (Header req) (canon ''Reference-ID'') = Some []
      \<or> (\<exists>rest. lookup (Header req) (canon ''Reference-ID'') = Some ([] # rest)) \<longrightarrow>
      middleware_ReferenceID canon shortuuid_New handler w req =
        handler (w @ [Header_Set ''Reference-ID'' shortuuid_New])
          (req\<lparr>Ctx := WithValue (Ctx req) ''reference_id'' (Str shortuuid_New)\<rparr>)) \<and>
   middleware_ReferenceID canon shortuuid_New handler w req =
     handler
       (w @ [Header_Set ''Reference-ID''
          (if Header_Get canon (Header req) ''Reference-ID'' = [] then shortuuid_New
           else Header_Get canon (Header req) ''Reference-ID'')])
       (req\<lparr>Ctx := WithValue (Ctx req) ''reference_id''
          (Str (if Header_Get canon (Header req) ''Reference-ID'' = [] then shortuuid_New
                else Header_Get canon (Header req) ''Reference-ID''))\<rparr>) \<and>
   GetReferenceID (req\<lparr>Ctx := WithValue (Ctx req) ''reference_id'' (Str ref)\<rparr>) = Inr ref \<and>
   (reachable (Ctx req) \<longrightarrow> reachable (WithValue (Ctx req) ''reference_id'' (Str ref)))"
proof -
  have "reachable (WithValue (Ctx req) ''reference_id'' (Str ref))" if "reachable (Ctx req)"
    using that by (rule reachable.referenceID)
  then show ?thesis
    by (auto simp add: middleware_ReferenceID_def Header_Get_def Let_def GetReferenceID_def
        Value_def WithValue_def)
qed

theorem middleware_ReferenceID_propagates_witness:
  "middleware_ReferenceID (\<lambda>k. if k = ''Reference-ID'' then ''Reference-Id'' else k) ''fresh''
      (\<lambda>w req. (w, Ctx req)) []
      \<lparr>Method = ''GET'', Host = ''h'', URL_Path = ''/'', URL_Query = None,
       Header = Some [(''Reference-Id'', [''abc''])], Body = None, Ctx = []\<rparr> =
     ([Header_Set ''Reference-ID'' ''abc''], [(''reference_id'', Str ''abc'')]) \<and>
   middleware_ReferenceID (\<lambda>k. if k = ''Reference-ID'' then ''Reference-Id'' else k) ''fresh''
      (\<lambda>w req. (w, Ctx req)) []
      \<lparr>Method = ''GET'', Host = ''h'', URL_Path = ''/'', URL_Query = None,
       Header = None, Body = None, Ctx = []\<rparr> =
     ([Header_Set ''Reference-ID'' ''fresh''], [(''reference_id'', Str ''fresh'')])"
proof -
  have present: "lookup (Some [(''Reference-Id'', [''abc''])])
      ((\<lambda>k. if k = ''Reference-ID'' then ''Reference-Id'' else k) ''Reference-ID'')
      = Some (''abc'' # [])"
    by (simp add: lookup_def entries_def)
  have absent: "lookup (None :: Header)
      ((\<lambda>k. if k = ''Reference-ID'' then ''Reference-Id'' else k) ''Reference-ID'') = None"
    by (simp add: lookup_def entries_def)
  note t1 = middleware_ReferenceID_propagates [of
      "\<lparr>Method = ''GET'', Host = ''h'', URL_Path = ''/'', URL_Query = None,
        Header = Some [(''Reference-Id'', [''abc''])], Body = None, Ctx = []\<rparr>"
      "\<lambda>k. if k = ''Reference-ID'' then ''Reference-Id'' else k" "''abc''" "[]" "''fresh''"
      "\<lambda>w req. (w, Ctx req)" "[]" "''abc''"]
  note t2 = middleware_ReferenceID_propagates [of
      "\<lparr>Method = ''GET'', Host = ''h'', URL_Path = ''/'', URL_Query = None,
        Header = None, Body = None, Ctx = []\<rparr>"
      "\<lambda>k. if k = ''Reference-ID'' then ''Reference-Id'' else k" "''abc''" "[]" "''fresh''"
      "\<lambda>w req. (w, Ctx req)" "[]" "''abc''"]
  from t1 present have "middleware_ReferenceID
      (\<lambda>k. if k = ''Reference-ID'' then ''Reference-Id'' else k) ''fresh''
      (\<lambda>w req. (w, Ctx req)) []
      \<lparr>Method = ''GET'', Host = ''h'', URL_Path = ''/'', URL_Query = None,
       Header = Some [(''Reference-Id'', [''abc''])], Body = None, Ctx = []\<rparr> =
     ([Header_Set ''Reference-ID'' ''abc''], [(''reference_id'', Str ''abc'')])"
    by (simp add: WithValue_def)
  moreover from t2 absent have "middleware_ReferenceID
      (\<lambda>k. if k = ''Reference-ID'' then ''Reference-Id'' else k) ''fresh''
      (\<lambda>w req. (w, Ctx req)) []
      \<lparr>Method = ''GET'', Host = ''h'', URL_Path = ''/'', URL_Query = None,
       Header = None, Body = None, Ctx = []\<rparr> =
     ([Header_Set ''Reference-ID'' ''fresh''], [(''reference_id'', Str ''fresh'')])"
    by (simp add: WithValue_def)
  ultimately show ?thesis by blast
qed

section \<open>The capture middleware\<close>

lemma Body_same: "Body r = Some b \<Longrightarrow> r\<lparr>Body := Some b\<rparr> = r"
  by simp

lemma serve_replays:
  assumes "handler NewRecorder r = Inr (rec, handler_logged)"
    and "rec_Body rec = None \<and> respBody = [] \<or> rec_Body rec = Some (Reader respBody None)"
    and "respBody \<noteq> [] \<longrightarrow> w_Write respBody = None"
  shows "RequestResponseLogger_serve gosyntax_body gosyntax handler w_Write refID user r
           reqBody wd =
         Inr (wd\<lparr>calls := calls wd @ replay rec respBody,
                 logged := logged wd @ handler_logged @
                   [(inbound_message r (Code rec),
                     [ReferenceID refID, User user, log_Request r reqBody,
                      Response (Code rec) (HeaderMap rec) respBody])]\<rparr>)"
  using assms
  by (auto simp add: RequestResponseLogger_serve_def RequestResponseLogger_finish_def Let_def)

text \<open>
  Claim C6. For every request whose body is present and whose read fails, on a context
  from which the reference id and the user resolve (as on every context this repository
  builds): the middleware makes one call of \<open>log.Log\<close>, the failure event with the error, and
  three calls on the real response writer: content type JSON, status 500, and the body
  \<open>{"reference_id": "<id>"}\<close>. It then returns. The outcome is the same for every wrapped
  handler, one that panics included: the handler is not invoked.
\<close>

theorem RequestResponseLogger_read_failure:
  assumes "GetReferenceID r = Inr refID" and "GetUser r = Inr user"
    and "Body r = Some b" and "ReadAll b = (read, Some err)"
  shows "RequestResponseLogger gosyntax_body gosyntax handler w_Write wd r =
           Inr (wd\<lparr>calls := calls wd @
                    [Header_Set ''Content-Type'' ''application/json'',
                     WriteHeader 500,
                     Write (''{\"reference_id\": \"'' @ refID @ ''\"}'')],
                  logged := logged wd @
                    [(''failed ioutil.ReadAll'',
                      [ReferenceID refID, User user, Error err,
                       Context (Some [(''body'', gosyntax_body b)]),
                       Request (Method r) (Host r) (URL_Path r) (URL_Query r) (Header r) []])]\<rparr>)
         \<and> RequestResponseLogger gosyntax_body gosyntax handler w_Write wd r =
             RequestResponseLogger gosyntax_body gosyntax
               (\<lambda>rec r. Inl (HandlerPanic ''never called'')) w_Write' wd r"
  using assms
  by (simp add: RequestResponseLogger_def reply_reference_id_def StatusInternalServerError_def
      log_Request_def)

theorem RequestResponseLogger_read_failure_witness:
  "RequestResponseLogger (\<lambda>b. ''reader'') (\<lambda>b. b)
      (\<lambda>rec r. Inr (rec\<lparr>Code := 201, HeaderMap := Some [(''X'', [''a'', ''b''])],
         rec_Body := Some (Reader ''pong'' None)\<rparr>, [])) (\<lambda>b. None)
      \<lparr>calls = [], logged = []\<rparr>
      (\<lparr>Method = ''POST'', Host = ''example.org'', URL_Path = ''/p'', URL_Query = None,
       Header = None, Body = Some (Reader ''pi'' (Some ''unexpected EOF'')),
       Ctx = [(''reference_id'', Str ''abc'')]\<rparr>) =
     Inr \<lparr>calls = [Header_Set ''Content-Type'' ''application/json'', WriteHeader 500,
                  Write ''{\"reference_id\": \"abc\"}''],
          logged = [(''failed ioutil.ReadAll'',
                     [ReferenceID ''abc'', User [], Error ''unexpected EOF'',
                      Context (Some [(''body'', ''reader'')]),
                      Request ''POST'' ''example.org'' ''/p'' None None []])]\<rparr>"
proof -
  have a: "GetReferenceID (\<lparr>Method = ''POST'', Host = ''example.org'', URL_Path = ''/p'', URL_Query = None,
       Header = None, Body = Some (Reader ''pi'' (Some ''unexpected EOF'')),
       Ctx = [(''reference_id'', Str ''abc'')]\<rparr>) = Inr ''abc''"
    by (simp add: GetReferenceID_def Value_def)
  have b: "GetUser (\<lparr>Method = ''POST'', Host = ''example.org'', URL_Path = ''/p'', URL_Query = None,
       Header = None, Body = Some (Reader ''pi'' (Some ''unexpected EOF'')),
       Ctx = [(''reference_id'', Str ''abc'')]\<rparr>) = Inr []"
    by (simp add: GetUser_def Value_def)
  have c: "Body (\<lparr>Method = ''POST'', Host = ''example.org'', URL_Path = ''/p'', URL_Query = None,
       Header = None, Body = Some (Reader ''pi'' (Some ''unexpected EOF'')),
       Ctx = [(''reference_id'', Str ''abc'')]\<rparr>) = Some (Reader ''pi'' (Some ''unexpected EOF''))"
    by simp
  have d: "ReadAll (Reader ''pi'' (Some ''unexpected EOF'')) = (''pi'', Some ''unexpected EOF'')"
    by simp
  from RequestResponseLogger_read_failure [OF a b c d, of "\<lambda>b. ''reader''" "\<lambda>b. b"
      "\<lambda>rec r. Inr (rec\<lparr>Code := 201, HeaderMap := Some [(''X'', [''a'', ''b''])],
         rec_Body := Some (Reader ''pong'' None)\<rparr>, [])" "\<lambda>b. None" "\<lparr>calls = [], logged = []\<rparr>" "\<lambda>b. None"]
  show ?thesis by simp
qed

text \<open>
  Claim C1. For every wrapped handler that returns, and every request whose body (if any)
  and whose recorded response body are read without failure and whose reference id and user
  resolve, with no failure of the write to the real writer: the calls that the middleware
  makes on the real response writer are one header assignment for each header of the
  recorder, then \<open>WriteHeader\<close> with the recorded status code, then, if the recorded body is
  non-empty, \<open>Write\<close> with that body, and no other. After what the handler itself has
  logged, the middleware makes exactly one call of \<open>log.Log\<close>: the inbound event, with the
  message \<open>in '<method> <host><path>' <status>\<close>, the request and the response.
\<close>

theorem RequestResponseLogger_replays:
  assumes "GetReferenceID r = Inr refID" and "GetUser r = Inr user"
    and "Body r = None \<and> reqBody = [] \<or> Body r = Some (Reader reqBody None)"
    and "handler NewRecorder r = Inr (rec, handler_logged)"
    and "rec_Body rec = None \<and> respBody = [] \<or> rec_Body rec = Some (Reader respBody None)"
    and "respBody \<noteq> [] \<longrightarrow> w_Write respBody = None"
  shows "RequestResponseLogger gosyntax_body gosyntax handler w_Write wd r =
           Inr (wd\<lparr>calls := calls wd
                    @ map (\<lambda>(k, v). Header_Assign k v) (entries (HeaderMap rec))
                    @ [WriteHeader (Code rec)]
                    @ (if respBody = [] then [] else [Write respBody]),
                  logged := logged wd @ handler_logged @
                    [(''in '' @ [CHR 0x27] @ Method r @ '' '' @ Host r @ URL_Path r
                        @ [CHR 0x27] @ '' '' @ fmt_d (Code rec),
                      [ReferenceID refID, User user,
                       Request (Method r) (Host r) (URL_Path r) (URL_Query r) (Header r) reqBody,
                       Response (Code rec) (HeaderMap rec) respBody])]\<rparr>)"
proof -
  have serve: "RequestResponseLogger_serve gosyntax_body gosyntax handler w_Write refID user r
           reqBody wd =
         Inr (wd\<lparr>calls := calls wd @ replay rec respBody,
                 logged := logged wd @ handler_logged @
                   [(inbound_message r (Code rec),
                     [ReferenceID refID, User user, log_Request r reqBody,
                      Response (Code rec) (HeaderMap rec) respBody])]\<rparr>)"
    using assms(4-6) by (rule serve_replays)
  have run: "RequestResponseLogger gosyntax_body gosyntax handler w_Write wd r =
      RequestResponseLogger_serve gosyntax_body gosyntax handler w_Write refID user r reqBody wd"
    using assms(3)
  proof
    assume "Body r = None \<and> reqBody = []"
    then show ?thesis using assms(1,2) by (simp add: RequestResponseLogger_def)
  next
    assume some: "Body r = Some (Reader reqBody None)"
    then have same: "r\<lparr>Body := Some (Reader reqBody None)\<rparr> = r" by (rule Body_same)
    have "RequestResponseLogger gosyntax_body gosyntax handler w_Write wd r =
      RequestResponseLogger_serve gosyntax_body gosyntax handler w_Write refID user
        (r\<lparr>Body := Some (Reader reqBody None)\<rparr>) reqBody wd"
      using assms(1,2) some by (simp add: RequestResponseLogger_def)
    then show ?thesis unfolding same .
  qed
  show ?thesis
    unfolding run serve
    by (simp add: replay_def inbound_message_def log_Request_def)
qed

theorem RequestResponseLogger_replays_witness:
  "RequestResponseLogger (\<lambda>b. ''reader'') (\<lambda>b. b)
      (\<lambda>rec r. Inr (rec\<lparr>Code := 201, HeaderMap := Some [(''X'', [''a'', ''b''])],
         rec_Body := Some (Reader ''pong'' None)\<rparr>, [])) (\<lambda>b. None)
      \<lparr>calls = [], logged = []\<rparr>
      (\<lparr>Method = ''POST'', Host = ''example.org'', URL_Path = ''/p'', URL_Query = None,
       Header = None, Body = Some (Reader ''ping'' None), Ctx = []\<rparr>) =
     Inr \<lparr>calls = [Header_Assign ''X'' [''a'', ''b''], WriteHeader 201, Write ''pong''],
          logged = [(''in '' @ [CHR 0x27] @ ''POST example.org/p'' @ [CHR 0x27] @ '' 201'',
                     [ReferenceID [], User [],
                      Request ''POST'' ''example.org'' ''/p'' None None ''ping'',
                      Response 201 (Some [(''X'', [''a'', ''b''])]) ''pong''])]\<rparr>"
proof -
  have g: "fmt_d 201 = ''201''"
    by code_simp
  note t = RequestResponseLogger_replays [of
      "\<lparr>Method = ''POST'', Host = ''example.org'', URL_Path = ''/p'', URL_Query = None,
       Header = None, Body = Some (Reader ''ping'' None), Ctx = []\<rparr>"
      "[]" "[]" "''ping''"
      "\<lambda>rec r. Inr (rec\<lparr>Code := 201, HeaderMap := Some [(''X'', [''a'', ''b''])],
         rec_Body := Some (Reader ''pong'' None)\<rparr>, [])"
      "NewRecorder\<lparr>Code := 201, HeaderMap := Some [(''X'', [''a'', ''b''])],
         rec_Body := Some (Reader ''pong'' None)\<rparr>"
      "[]" "''pong''" "\<lambda>b. None" "\<lambda>b. ''reader''" "\<lambda>b. b"
      "\<lparr>calls = [], logged = []\<rparr>"]
  have "GetReferenceID (\<lparr>Method = ''POST'', Host = ''example.org'', URL_Path = ''/p'', URL_Query = None,
       Header = None, Body = Some (Reader ''ping'' None), Ctx = []\<rparr>) = Inr []"
    by (simp add: GetReferenceID_def Value_def)
  moreover have "GetUser (\<lparr>Method = ''POST'', Host = ''example.org'', URL_Path = ''/p'', URL_Query = None,
       Header = None, Body = Some (Reader ''ping'' None), Ctx = []\<rparr>) = Inr []"
    by (simp add: GetUser_def Value_def)
  ultimately show ?thesis
    using t by (simp add: g NewRecorder_def entries_def)
qed

end
